theory Spec2Isabelle
  imports Complex_Main "HOL-Library.Word"
begin

section \<open>Machine integers and number formatting\<close>

text \<open>
  The C++ type \<open>int\<close> of \<open>src/main.cpp\<close> is a 32-bit two's-complement integer on the
  targets the program builds for. It is modelled as \<open>32 word\<close>: \<open>+\<close> and \<open>-\<close> wrap
  around, comparisons read both sides with \<open>sint\<close>. (Signed overflow is undefined
  behaviour in C++; the model takes the wrap-around the hardware produces.)
  The type \<open>double\<close> is idealised as \<open>real\<close>: prices are only copied, multiplied
  by a quantity and added up, and the property of these sums is one of exact
  arithmetic.
\<close>

type_synonym cint = "32 word"

definition INT_MAX :: int where
  "INT_MAX = 2147483647"

definition INT_MIN :: int where
  "INT_MIN = - 2147483648"

text \<open>\<open>ostream << int\<close>: decimal digits, a leading minus sign for a negative value.\<close>

fun show_nat :: "nat \<Rightarrow> string" where
  "show_nat n =
     (if n < 10 then [''0123456789'' ! n]
      else show_nat (n div 10) @ [''0123456789'' ! (n mod 10)])"

declare show_nat.simps [simp del]

definition show_int :: "int \<Rightarrow> string" where
  "show_int i = (if i < 0 then CHR ''-'' # show_nat (nat (- i)) else show_nat (nat i))"

definition newline :: char where
  "newline = CHR 0x0A"

section \<open>Product\<close>

text \<open>
  \<open>struct Product\<close> (lines 197-215). The field \<open>id\<close> is named \<open>id'\<close> here, since \<open>id\<close>
  is the identity function of HOL.
\<close>

record Product =
  id' :: cint
  name :: string
  quantity :: cint
  price :: real

text \<open>A default-constructed \<open>Product p;\<close>: the member initialisers \<open>{}\<close> give zeros.\<close>

definition Product_default :: Product where
  "Product_default = \<lparr>id' = 0, name = [], quantity = 0, price = 0\<rparr>"

text \<open>
  \<open>Product::toFileString\<close> (lines 210-214). How the stream prints a \<open>double\<close> is the
  library's business (six significant digits by default); it is the parameter \<open>fmt\<close>.
\<close>

definition toFileString :: "(real \<Rightarrow> string) \<Rightarrow> Product \<Rightarrow> string" where
  "toFileString fmt p =
     show_int (sint (id' p)) @ '' '' @ name p @ '' '' @
     show_int (sint (quantity p)) @ '' '' @ fmt (price p)"

section \<open>The container: \<open>std::map<int, Product>\<close>\<close>

text \<open>
  A \<open>std::map\<close> keeps its entries in ascending key order (here: the signed order of
  \<open>int\<close>) with unique keys, and iterates in that order. It is modelled as an
  association list; \<open>assign\<close> is \<open>m[k] = v\<close>, which overwrites the entry of \<open>k\<close> or
  inserts a new one at its place in the order; \<open>erase\<close> returns the number of entries
  removed, as \<open>map::erase(key)\<close> does; \<open>map_of m k\<close> is the lookup (\<open>None\<close> exactly
  when \<open>m.count(k)\<close> is 0).
\<close>

type_synonym products_map = "(cint \<times> Product) list"

definition count_m :: "products_map \<Rightarrow> cint \<Rightarrow> nat" where
  "count_m m k = (case map_of m k of None \<Rightarrow> 0 | Some _ \<Rightarrow> 1)"

fun assign :: "products_map \<Rightarrow> cint \<Rightarrow> Product \<Rightarrow> products_map" where
  "assign [] k v = [(k, v)]"
| "assign ((k', v') # m) k v =
     (if k = k' then (k, v) # m
      else if sint k < sint k' then (k, v) # (k', v') # m
      else (k', v') # assign m k v)"

definition erase :: "products_map \<Rightarrow> cint \<Rightarrow> products_map \<times> nat" where
  "erase m k = (filter (\<lambda>e. fst e \<noteq> k) m, count_m m k)"

section \<open>Inventory\<close>

text \<open>
  Every \<open>cout <<\<close> statement of \<open>class Inventory\<close> is one constructor of \<open>msg\<close>;
  \<open>render\<close> gives the text it prints. An operation returns its \<open>bool\<close>, the
  inventory after the call and the messages printed, in order.
\<close>

datatype msg =
    AlreadyExists
  | ExceedsMax
  | Inserted
  | Deleted
  | NotFound
  | CannotRestock
  | Restocked cint
  | NotEnoughStock
  | EMPTY string
  | SHORT string
  | FULL string
  | SaleSuccessful

fun render :: "msg \<Rightarrow> string" where
  "render AlreadyExists = '' X Product already exists.'' @ [newline]"
| "render ExceedsMax = '' X Quantity cannot exceed 100.'' @ [newline]"
| "render Inserted = ''Product inserted successfully. :D '' @ [newline]"
| "render Deleted = '' Product deleted successfully. :D '' @ [newline]"
| "render NotFound = '' X Product not found.'' @ [newline]"
| "render CannotRestock = '' X Cannot restock beyond 100.'' @ [newline]"
| "render (Restocked q) =
     ''Restocked successfully.:D Current quantity: '' @ show_int (sint q) @ [newline]"
| "render NotEnoughStock = '' X Not enough stock.'' @ [newline]"
| "render (EMPTY n) = '' X Product '' @ [CHR 0x27] @ n @ [CHR 0x27] @ '' is now EMPTY!'' @ [newline]"
| "render (SHORT n) =
     ''  Product '' @ [CHR 0x27] @ n @ [CHR 0x27] @ '' is SHORT and needs refilling!'' @ [newline]"
| "render (FULL n) = '' Product '' @ [CHR 0x27] @ n @ [CHR 0x27] @ '' is FULL. :D'' @ [newline]"
| "render SaleSuccessful = ''Sale successful. :D'' @ [newline]"

type_synonym Inventory = products_map

record op_result =
  ret :: bool
  products :: Inventory
  cout :: "msg list"

text \<open>\<open>Inventory::insertProduct\<close> (lines 242-254).\<close>

definition insertProduct :: "Inventory \<Rightarrow> Product \<Rightarrow> op_result" where
  "insertProduct inventory p =
     (if count_m inventory (id' p) \<noteq> 0 then
        \<lparr>ret = False, products = inventory, cout = [AlreadyExists]\<rparr>
      else if 100 < sint (quantity p) then
        \<lparr>ret = False, products = inventory, cout = [ExceedsMax]\<rparr>
      else
        \<lparr>ret = True, products = assign inventory (id' p) p, cout = [Inserted]\<rparr>)"

text \<open>\<open>Inventory::deleteProduct\<close> (lines 256-263).\<close>

definition deleteProduct :: "Inventory \<Rightarrow> cint \<Rightarrow> op_result" where
  "deleteProduct inventory i =
     (case erase inventory i of
        (inventory', n) \<Rightarrow>
          if n \<noteq> 0 then \<lparr>ret = True, products = inventory', cout = [Deleted]\<rparr>
          else \<lparr>ret = False, products = inventory', cout = [NotFound]\<rparr>)"

text \<open>
  \<open>Inventory::restockProduct\<close> (lines 265-278). The reference \<open>prod\<close> into the
  map is \<open>prd\<close> here: the update of its quantity is an update of the stored entry.
\<close>

definition restockProduct :: "Inventory \<Rightarrow> cint \<Rightarrow> cint \<Rightarrow> op_result" where
  "restockProduct inventory i amount =
     (case map_of inventory i of
        None \<Rightarrow> \<lparr>ret = False, products = inventory, cout = [NotFound]\<rparr>
      | Some prd \<Rightarrow>
          if 100 < sint (quantity prd + amount) then
            \<lparr>ret = False, products = inventory, cout = [CannotRestock]\<rparr>
          else
            let prd' = prd\<lparr>quantity := quantity prd + amount\<rparr>
            in \<lparr>ret = True, products = assign inventory i prd',
                 cout = [Restocked (quantity prd')]\<rparr>)"

text \<open>
  \<open>Inventory::sellProduct\<close> (lines 280-304). The out-parameter \<open>outTaken\<close> is passed
  in and returned: a failed call leaves it as it was. \<open>warnings\<close> is the chain of
  lines 295-300, on the product after the decrement.
\<close>

record sell_result = op_result +
  outTaken :: Product

definition warnings :: "Product \<Rightarrow> msg list" where
  "warnings prd =
     (if quantity prd = 0 then [EMPTY (name prd)]
      else if sint (quantity prd) < 20 then [SHORT (name prd)]
      else if quantity prd = 100 then [FULL (name prd)]
      else [])"

definition sellProduct :: "Inventory \<Rightarrow> cint \<Rightarrow> cint \<Rightarrow> Product \<Rightarrow> sell_result" where
  "sellProduct inventory i amount out0 =
     (case map_of inventory i of
        None \<Rightarrow> \<lparr>ret = False, products = inventory, cout = [NotFound], outTaken = out0\<rparr>
      | Some prd \<Rightarrow>
          if sint (quantity prd) < sint amount then
            \<lparr>ret = False, products = inventory, cout = [NotEnoughStock], outTaken = out0\<rparr>
          else
            let prd' = prd\<lparr>quantity := quantity prd - amount\<rparr>
            in \<lparr>ret = True, products = assign inventory i prd',
                 cout = warnings prd' @ [SaleSuccessful],
                 outTaken = prd'\<lparr>quantity := amount\<rparr>\<rparr>)"

text \<open>
  \<open>Inventory::getFileContent\<close> (lines 317-325). The clock read by
  \<open>TimeTools::now_timestamp\<close> is the parameter \<open>now\<close>.
\<close>

definition getFileContent :: "string \<Rightarrow> (real \<Rightarrow> string) \<Rightarrow> Inventory \<Rightarrow> string" where
  "getFileContent now fmt inventory =
     ''=== INVENTORY EXPORT ==='' @ [newline] @
     ''Timestamp: '' @ now @ [newline, newline] @
     concat (map (\<lambda>(i, p). toFileString fmt p @ [newline]) inventory)"

text \<open>\<open>Inventory::productExists\<close> (lines 327-329).\<close>

definition productExists :: "Inventory \<Rightarrow> cint \<Rightarrow> bool" where
  "productExists inventory i = (count_m inventory i > 0)"

section \<open>Reciept\<close>

text \<open>\<open>class Reciept\<close> (lines 333-370); the field \<open>total\<close> is named \<open>total'\<close>.\<close>

record Reciept =
  soldItems :: "Product list"
  total' :: real




definition isEmpty :: "Reciept \<Rightarrow> bool" where
  "isEmpty r = (soldItems r = [])"

text \<open>The per-line total of \<open>Reciept::getFileContent\<close>: \<open>p.quantity * p.price\<close> (line 354).\<close>

definition line_total :: "Product \<Rightarrow> real" where
  "line_total p = real_of_int (sint (quantity p)) * price p"

definition receipt_line :: "(real \<Rightarrow> string) \<Rightarrow> Product \<Rightarrow> string" where
  "receipt_line fmt p =
     name p @ '' x'' @ show_int (sint (quantity p)) @ '' @ '' @ fmt (price p) @
     '' = '' @ fmt (line_total p) @ [newline]"

definition Reciept_getFileContent :: "string \<Rightarrow> (real \<Rightarrow> string) \<Rightarrow> Reciept \<Rightarrow> string" where
  "Reciept_getFileContent now fmt r =
     ''===== RECEIPT ====='' @ [newline] @
     ''Timestamp: '' @ now @ [newline] @
     ''-------------------'' @ [newline] @
     concat (map (receipt_line fmt) (soldItems r)) @
     ''-------------------'' @ [newline] @
     ''Total: '' @ fmt (total' r) @ [newline] @
     ''==================='' @ [newline]"

section \<open>Sequences of calls\<close>

text \<open>
  The menus call the operations one after the other on the one inventory and the one
  receipt of the application, both empty at the start (\<open>SupermarketApp\<close>).
\<close>

datatype inv_op =
    Insert Product
  | Delete cint
  | Restock cint cint
  | Sell cint cint

fun apply_op :: "Inventory \<Rightarrow> inv_op \<Rightarrow> Inventory" where
  "apply_op inventory (Insert p) = products (insertProduct inventory p)"
| "apply_op inventory (Delete i) = products (deleteProduct inventory i)"
| "apply_op inventory (Restock i a) = products (restockProduct inventory i a)"
| "apply_op inventory (Sell i a) = products (sellProduct inventory i a Product_default)"

definition run_ops :: "inv_op list \<Rightarrow> Inventory" where
  "run_ops ops = foldl apply_op [] ops"




text \<open>The lines of a document: the text before each line feed, in order.\<close>

fun lines_acc :: "string \<Rightarrow> string \<Rightarrow> string list" where
  "lines_acc acc [] = (if acc = [] then [] else [acc])"
| "lines_acc acc (c # cs) =
     (if c = newline then acc # lines_acc [] cs else lines_acc (acc @ [c]) cs)"

definition lines_of :: "string \<Rightarrow> string list" where
  "lines_of s = lines_acc [] s"

section \<open>Predicates on inventories and calls\<close>

text \<open>
  The order in which the map iterates, and the link between a key and the \<open>id\<close> field
  of the product stored under it.
\<close>

definition keys_ascending :: "Inventory \<Rightarrow> bool" where
  "keys_ascending m = sorted_wrt (<) (map (\<lambda>e. sint (fst e)) m)"

definition ids_match :: "Inventory \<Rightarrow> bool" where
  "ids_match m = list_all (\<lambda>e. id' (snd e) = fst e) m"

text \<open>The stock range of the data model: every stored quantity is in \<open>[0, 100]\<close>.\<close>

definition quantity_ok :: "Product \<Rightarrow> bool" where
  "quantity_ok p = (0 \<le> sint (quantity p) \<and> sint (quantity p) \<le> 100)"

definition quantities_in_range :: "Inventory \<Rightarrow> bool" where
  "quantities_in_range m = list_all (\<lambda>e. quantity_ok (snd e)) m"

text \<open>
  A call without a negative number: the inserted quantity, the restock amount and the
  sale amount are at least 0.
\<close>

fun nonneg_op :: "inv_op \<Rightarrow> bool" where
  "nonneg_op (Insert p) = (0 \<le> sint (quantity p))"
| "nonneg_op (Delete i) = True"
| "nonneg_op (Restock i a) = (0 \<le> sint a)"
| "nonneg_op (Sell i a) = (0 \<le> sint a)"

text \<open>
  A restock amount that cannot overflow the sum \<open>prod.quantity + amount\<close> of line 271
  when the stored quantity is at most 100.
\<close>

fun restock_fits :: "inv_op \<Rightarrow> bool" where
  "restock_fits (Restock i a) = (sint a \<le> INT_MAX - 100)"
| "restock_fits _ = True"



text \<open>
  A product whose name and printed price hold no line feed (\<open>getline\<close> never returns
  one in a name), so that its record stays on one line.
\<close>

definition line_safe :: "(real \<Rightarrow> string) \<Rightarrow> Product \<Rightarrow> bool" where
  "line_safe fmt p = (newline \<notin> set (name p) \<and> newline \<notin> set (fmt (price p)))"

section \<open>Example data\<close>

text \<open>The product of the specification's scenario, and a full shelf.\<close>

definition milk :: Product where
  "milk = \<lparr>id' = 1, name = ''Milk'', quantity = 50, price = 5 / 2\<rparr>"

definition rice :: Product where
  "rice = \<lparr>id' = 2, name = ''Rice'', quantity = 100, price = 3\<rparr>"

text \<open>What the stream prints for the two prices of the examples.\<close>

definition fmt2 :: "real \<Rightarrow> string" where
  "fmt2 x = (if x = 5 / 2 then ''2.5'' else ''3'')"

section \<open>The container\<close>

lemma map_of_assign: "map_of (assign m k v) = (map_of m)(k \<mapsto> v)"
  by (induction m) (auto simp: fun_eq_iff)

lemma set_assign: "set (assign m k v) \<subseteq> insert (k, v) (set m)"
  by (induction m) (auto split: if_splits)

lemma count_m_zero: "count_m m k = 0 \<longleftrightarrow> map_of m k = None"
  by (simp add: count_m_def split: option.splits)

lemma filter_absent: "map_of m k = None \<Longrightarrow> filter (\<lambda>e. fst e \<noteq> k) m = m"
  by (induction m) (auto split: if_splits)

lemma filter_assign_absent:
  "map_of m k = None \<Longrightarrow> filter (\<lambda>e. fst e \<noteq> k) (assign m k v) = m"
  by (induction m) (auto simp: filter_absent split: if_splits)

lemma sint_less_or_greater:
  "k \<noteq> k' \<Longrightarrow> \<not> sint k < sint k' \<Longrightarrow> sint k' < sint (k :: cint)"
  by (metis linorder_neqE_linordered_idom signed_word_eqI)

lemma keys_ascending_assign: "keys_ascending m \<Longrightarrow> keys_ascending (assign m k v)"
proof (induction m)
  case Nil
  then show ?case by (simp add: keys_ascending_def)
next
  case (Cons e m)
  obtain k' v' where e: "e = (k', v')" by (cases e)
  from Cons.prems have tl: "keys_ascending m"
    and hd: "\<forall>x \<in> set m. sint k' < sint (fst x)"
    by (auto simp: keys_ascending_def e)
  show ?case
  proof (cases "k = k'")
    case True
    with Cons.prems show ?thesis by (simp add: keys_ascending_def e)
  next
    case ne: False
    show ?thesis
    proof (cases "sint k < sint k'")
      case True
      with Cons.prems ne show ?thesis by (auto simp: keys_ascending_def e)
    next
      case False
      with ne have gt: "sint k' < sint k" by (simp add: sint_less_or_greater)
      have "\<forall>x \<in> set (assign m k v). sint k' < sint (fst x)"
        using set_assign [of m k v] hd gt by auto
      with Cons.IH [OF tl] ne False show ?thesis
        by (simp add: keys_ascending_def e)
    qed
  qed
qed

lemma keys_ascending_filter: "keys_ascending m \<Longrightarrow> keys_ascending (filter P m)"
  unfolding keys_ascending_def by (induction m) auto

lemma ids_match_assign: "ids_match m \<Longrightarrow> id' v = k \<Longrightarrow> ids_match (assign m k v)"
  using set_assign [of m k v] by (auto simp: ids_match_def list_all_iff)

lemma ids_match_filter: "ids_match m \<Longrightarrow> ids_match (filter P m)"
  by (auto simp: ids_match_def list_all_iff)

lemma map_of_ids_match: "ids_match m \<Longrightarrow> map_of m k = Some p \<Longrightarrow> id' p = k"
  by (fastforce simp: ids_match_def list_all_iff dest: map_of_SomeD)

section \<open>Reachable inventories\<close>

lemma apply_op_keys_ascending: "keys_ascending m \<Longrightarrow> keys_ascending (apply_op m x)"
  by (cases x)
    (auto simp: insertProduct_def deleteProduct_def restockProduct_def sellProduct_def
      erase_def Let_def keys_ascending_assign keys_ascending_filter split: option.splits)

lemma apply_op_ids_match: "ids_match m \<Longrightarrow> ids_match (apply_op m x)"
  by (cases x)
    (auto simp: insertProduct_def deleteProduct_def restockProduct_def sellProduct_def
      erase_def Let_def ids_match_assign ids_match_filter map_of_ids_match
      split: option.splits)

lemma foldl_apply_op_wf:
  "keys_ascending m \<Longrightarrow> ids_match m \<Longrightarrow>
   keys_ascending (foldl apply_op m ops) \<and> ids_match (foldl apply_op m ops)"
  by (induction ops arbitrary: m) (simp_all add: apply_op_keys_ascending apply_op_ids_match)

lemma run_ops_wf: "keys_ascending (run_ops ops) \<and> ids_match (run_ops ops)"
  unfolding run_ops_def
  by (rule foldl_apply_op_wf) (simp_all add: keys_ascending_def ids_match_def)

section \<open>Arithmetic of \<open>int\<close>\<close>

lemma sint_cint_range: "INT_MIN \<le> sint (a :: cint) \<and> sint a \<le> INT_MAX"
  using sint_ge [of a] sint_lt [of a] by (simp add: INT_MAX_def INT_MIN_def)

lemma sint_diff_exact:
  "INT_MIN \<le> sint a - sint b \<Longrightarrow> sint a - sint b \<le> INT_MAX \<Longrightarrow>
   sint (a - b) = sint a - sint (b :: cint)"
  by (simp add: sint_word_diff signed_take_bit_int_eq_self INT_MAX_def INT_MIN_def)

lemma sint_sum_exact:
  "INT_MIN \<le> sint a + sint b \<Longrightarrow> sint a + sint b \<le> INT_MAX \<Longrightarrow>
   sint (a + b) = sint a + sint (b :: cint)"
  by (simp add: sint_word_add signed_take_bit_int_eq_self INT_MAX_def INT_MIN_def)

section \<open>Selling\<close>

text \<open>
  C1, as amended. If the inventory holds a product \<open>p\<close> under \<open>i\<close> and its quantity is
  at least \<open>amount\<close>, then \<open>sellProduct\<close> returns \<open>true\<close> and the snapshot \<open>outTaken\<close>
  is \<open>p\<close> with the quantity field set to \<open>amount\<close> (so id, name and price are those of
  the stored product before the sale). Whenever the amount is not negative, or the
  difference of the stored quantity and the amount is at most \<open>INT_MAX\<close>, the entry of
  \<open>i\<close> is \<open>p\<close> with its quantity decreased by exactly \<open>amount\<close>, as integers, and every
  other entry is unchanged.
\<close>

theorem sellProduct_sufficient_stock:
  assumes "map_of inventory i = Some p"
    and "sint amount \<le> sint (quantity p)"
  shows "ret (sellProduct inventory i amount out0) = True \<and>
         outTaken (sellProduct inventory i amount out0) = p\<lparr>quantity := amount\<rparr> \<and>
         (0 \<le> sint amount \<or> sint (quantity p) - sint amount \<le> INT_MAX \<longrightarrow>
            map_of (products (sellProduct inventory i amount out0)) =
              (map_of inventory)(i \<mapsto> p\<lparr>quantity := quantity p - amount\<rparr>) \<and>
            sint (quantity p - amount) = sint (quantity p) - sint amount)"
proof -
  have "sint (quantity p - amount) = sint (quantity p) - sint amount"
    if "0 \<le> sint amount \<or> sint (quantity p) - sint amount \<le> INT_MAX"
  proof -
    from that sint_cint_range [of "quantity p"]
    have "sint (quantity p) - sint amount \<le> INT_MAX" by auto
    moreover from assms(2) have "INT_MIN \<le> sint (quantity p) - sint amount"
      by (simp add: INT_MIN_def)
    ultimately show ?thesis by (simp add: sint_diff_exact)
  qed
  with assms show ?thesis
    by (simp add: sellProduct_def Let_def map_of_assign)
qed

theorem sellProduct_sufficient_stock_witness:
  "map_of [(1, milk)] (1 :: cint) = Some milk \<and>
   sint (40 :: cint) \<le> sint (quantity milk) \<and>
   0 \<le> sint (40 :: cint) \<and>
   ret (sellProduct [(1, milk)] 1 40 Product_default) = True \<and>
   outTaken (sellProduct [(1, milk)] 1 40 Product_default) =
     \<lparr>id' = 1, name = ''Milk'', quantity = 40, price = 5 / 2\<rparr> \<and>
   map_of (products (sellProduct [(1, milk)] 1 40 Product_default)) 1 =
     Some \<lparr>id' = 1, name = ''Milk'', quantity = 10, price = 5 / 2\<rparr> \<and>
   sint (quantity milk - 40) = sint (quantity milk) - sint (40 :: cint)"
  using sellProduct_sufficient_stock [of "[(1, milk)]" 1 milk 40 Product_default]
  by (simp add: milk_def)

text \<open>
  C1 as stated fails where the subtraction of line 290 overflows: with 100 in stock and
  the amount \<open>INT_MIN\<close> the stock is at least the amount and the sale succeeds, but the
  stored quantity is then \<open>-2147483548\<close>, not \<open>100 - INT_MIN\<close>.
\<close>

theorem sellProduct_sufficient_stock_counterexample:
  "map_of [(2, rice)] (2 :: cint) = Some rice \<and>
   sint (- 2147483648 :: cint) \<le> sint (quantity rice) \<and>
   ret (sellProduct [(2, rice)] 2 (- 2147483648) Product_default) = True \<and>
   map_of (products (sellProduct [(2, rice)] 2 (- 2147483648) Product_default)) 2 =
     Some (rice\<lparr>quantity := 2147483748\<rparr>) \<and>
   sint (quantity rice) - sint (- 2147483648 :: cint) = 2147483748 \<and>
   sint (2147483748 :: cint) = - 2147483548 \<and>
   sint (2147483748 :: cint) \<noteq> sint (quantity rice) - sint (- 2147483648 :: cint)"
  by (simp add: sellProduct_def Let_def rice_def)

text \<open>
  The scenario of the specification: insert the milk (50 in stock); a sale of 40 leaves
  10 and warns that the stock is short; a sale of 10 leaves 0 and warns that it is
  empty; a sale of 1 is then refused for lack of stock.
\<close>

lemma milk_scenario:
  "insertProduct [] milk = \<lparr>ret = True, products = [(1, milk)], cout = [Inserted]\<rparr> \<and>
   sellProduct [(1, milk)] 1 40 Product_default =
     \<lparr>ret = True, products = [(1, milk\<lparr>quantity := 10\<rparr>)],
      cout = [SHORT ''Milk'', SaleSuccessful], outTaken = milk\<lparr>quantity := 40\<rparr>\<rparr> \<and>
   sellProduct [(1, milk\<lparr>quantity := 10\<rparr>)] 1 10 Product_default =
     \<lparr>ret = True, products = [(1, milk\<lparr>quantity := 0\<rparr>)],
      cout = [EMPTY ''Milk'', SaleSuccessful], outTaken = milk\<lparr>quantity := 10\<rparr>\<rparr> \<and>
   sellProduct [(1, milk\<lparr>quantity := 0\<rparr>)] 1 1 Product_default =
     \<lparr>ret = False, products = [(1, milk\<lparr>quantity := 0\<rparr>)],
      cout = [NotEnoughStock], outTaken = Product_default\<rparr>"
  by (simp add: insertProduct_def sellProduct_def Let_def warnings_def count_m_def milk_def)

section \<open>Inserting and restocking\<close>

lemma productExists_iff: "productExists inventory i \<longleftrightarrow> map_of inventory i \<noteq> None"
  by (simp add: productExists_def count_m_def split: option.splits)

text \<open>
  C4. \<open>insertProduct\<close> returns \<open>false\<close> and leaves the inventory alone when the id is
  present (the message of a duplicate id) and, for an id that is not present, when the
  quantity is above 100 (the message of a quantity out of range). In every other case,
  a negative quantity included, it returns \<open>true\<close> and the inventory maps \<open>p.id\<close> to
  \<open>p\<close>, every other entry unchanged.
\<close>

theorem insertProduct_cases:
  "(productExists inventory (id' p) \<longrightarrow>
      insertProduct inventory p =
        \<lparr>ret = False, products = inventory, cout = [AlreadyExists]\<rparr>) \<and>
   (\<not> productExists inventory (id' p) \<and> 100 < sint (quantity p) \<longrightarrow>
      insertProduct inventory p =
        \<lparr>ret = False, products = inventory, cout = [ExceedsMax]\<rparr>) \<and>
   (\<not> productExists inventory (id' p) \<and> sint (quantity p) \<le> 100 \<longrightarrow>
      ret (insertProduct inventory p) = True \<and>
      cout (insertProduct inventory p) = [Inserted] \<and>
      map_of (products (insertProduct inventory p)) = (map_of inventory)(id' p \<mapsto> p))"
  by (simp add: insertProduct_def productExists_def map_of_assign)

theorem insertProduct_cases_witness:
  "productExists [(1, milk)] (id' milk) \<and>
   insertProduct [(1, milk)] milk =
     \<lparr>ret = False, products = [(1, milk)], cout = [AlreadyExists]\<rparr> \<and>
   \<not> productExists [(1, milk)] (id' (rice\<lparr>quantity := 101\<rparr>)) \<and>
   100 < sint (quantity (rice\<lparr>quantity := 101\<rparr>)) \<and>
   insertProduct [(1, milk)] (rice\<lparr>quantity := 101\<rparr>) =
     \<lparr>ret = False, products = [(1, milk)], cout = [ExceedsMax]\<rparr> \<and>
   \<not> productExists [(1, milk)] (id' (rice\<lparr>quantity := - 5\<rparr>)) \<and>
   sint (quantity (rice\<lparr>quantity := - 5\<rparr>)) \<le> 100 \<and>
   ret (insertProduct [(1, milk)] (rice\<lparr>quantity := - 5\<rparr>)) = True \<and>
   map_of (products (insertProduct [(1, milk)] (rice\<lparr>quantity := - 5\<rparr>))) 2 =
     Some (rice\<lparr>quantity := - 5\<rparr>)"
  using insertProduct_cases [of "[(1, milk)]" milk]
    insertProduct_cases [of "[(1, milk)]" "rice\<lparr>quantity := 101\<rparr>"]
    insertProduct_cases [of "[(1, milk)]" "rice\<lparr>quantity := - 5\<rparr>"]
  by (simp add: milk_def rice_def productExists_def count_m_def)

text \<open>
  The branches of \<open>restockProduct\<close>, with the sum of line 271 as \<open>int\<close> computes it:
  it returns \<open>false\<close> and leaves the inventory alone when the id is absent (not found)
  and when that sum is above 100 (cannot restock). Otherwise it returns \<open>true\<close> and the
  entry of the id has the amount added to its quantity; nothing asks the amount or the
  result to be non-negative. The sum is the sum of the integers whenever that sum is an
  \<open>int\<close>.
\<close>

lemma restockProduct_cases:
  "(map_of inventory i = None \<longrightarrow>
      restockProduct inventory i amount =
        \<lparr>ret = False, products = inventory, cout = [NotFound]\<rparr>) \<and>
   (map_of inventory i = Some p \<and> 100 < sint (quantity p + amount) \<longrightarrow>
      restockProduct inventory i amount =
        \<lparr>ret = False, products = inventory, cout = [CannotRestock]\<rparr>) \<and>
   (map_of inventory i = Some p \<and> sint (quantity p + amount) \<le> 100 \<longrightarrow>
      ret (restockProduct inventory i amount) = True \<and>
      map_of (products (restockProduct inventory i amount)) =
        (map_of inventory)(i \<mapsto> p\<lparr>quantity := quantity p + amount\<rparr>)) \<and>
   (INT_MIN \<le> sint (quantity p) + sint amount \<and>
    sint (quantity p) + sint amount \<le> INT_MAX \<longrightarrow>
      sint (quantity p + amount) = sint (quantity p) + sint amount)"
  by (simp add: restockProduct_def Let_def map_of_assign sint_sum_exact)

lemma restockProduct_cases_example:
  "map_of [(1, milk)] (2 :: cint) = None \<and>
   restockProduct [(1, milk)] 2 5 =
     \<lparr>ret = False, products = [(1, milk)], cout = [NotFound]\<rparr> \<and>
   map_of [(1, milk)] (1 :: cint) = Some milk \<and>
   100 < sint (quantity milk + 51) \<and>
   restockProduct [(1, milk)] 1 51 =
     \<lparr>ret = False, products = [(1, milk)], cout = [CannotRestock]\<rparr> \<and>
   sint (quantity milk + (- 60)) \<le> 100 \<and>
   ret (restockProduct [(1, milk)] 1 (- 60)) = True \<and>
   map_of (products (restockProduct [(1, milk)] 1 (- 60))) 1 =
     Some (milk\<lparr>quantity := - 10\<rparr>) \<and>
   INT_MIN \<le> sint (quantity milk) + sint (- 60 :: cint) \<and>
   sint (quantity milk) + sint (- 60 :: cint) \<le> INT_MAX \<and>
   sint (quantity milk + (- 60)) = - 10"
  using restockProduct_cases [of "[(1, milk)]" 2 5 milk]
    restockProduct_cases [of "[(1, milk)]" 1 51 milk]
    restockProduct_cases [of "[(1, milk)]" 1 "- 60" milk]
  by (simp add: milk_def INT_MIN_def INT_MAX_def)

text \<open>
  C5 fails on the code where the sum of line 271 overflows. With 50 in stock and the
  amount \<open>INT_MAX\<close> the stored quantity plus the amount is above 100, yet
  \<open>restockProduct\<close> returns \<open>true\<close> and stores \<open>-2147483599\<close>. With \<open>-10\<close> in stock and
  the amount \<open>INT_MIN\<close> the stored quantity plus the amount is not above 100, yet the
  call is refused as a restock beyond 100.
\<close>

theorem restock_guard_overflow:
  "map_of [(1, milk)] (1 :: cint) = Some milk \<and>
   100 < sint (quantity milk) + sint (2147483647 :: cint) \<and>
   ret (restockProduct [(1, milk)] 1 2147483647) = True \<and>
   products (restockProduct [(1, milk)] 1 2147483647) =
     [(1, milk\<lparr>quantity := 2147483697\<rparr>)] \<and>
   sint (2147483697 :: cint) = - 2147483599 \<and>
   map_of [(1, milk\<lparr>quantity := - 10\<rparr>)] (1 :: cint) = Some (milk\<lparr>quantity := - 10\<rparr>) \<and>
   sint (quantity (milk\<lparr>quantity := - 10\<rparr>)) + sint (- 2147483648 :: cint) \<le> 100 \<and>
   restockProduct [(1, milk\<lparr>quantity := - 10\<rparr>)] 1 (- 2147483648) =
     \<lparr>ret = False, products = [(1, milk\<lparr>quantity := - 10\<rparr>)], cout = [CannotRestock]\<rparr>"
  by (simp add: restockProduct_def Let_def milk_def)

section \<open>Selling a negative amount\<close>

text \<open>
  C10, as amended. If the inventory holds a product \<open>p\<close> under \<open>i\<close> with a quantity of
  at least 0 and the amount is negative, then \<open>sellProduct\<close> returns \<open>true\<close> (the check
  of line 286 does not fire) and the snapshot is \<open>p\<close> with the negative amount as its
  quantity. Whenever the difference of the stored quantity and the amount is at most
  \<open>INT_MAX\<close>, the entry of \<open>i\<close> gets that difference as its quantity, which is greater
  than the quantity before (and may be above 100).
\<close>

theorem sellProduct_negative_amount:
  assumes "map_of inventory i = Some p"
    and "0 \<le> sint (quantity p)"
    and "sint amount < 0"
  shows "ret (sellProduct inventory i amount out0) = True \<and>
         outTaken (sellProduct inventory i amount out0) = p\<lparr>quantity := amount\<rparr> \<and>
         (sint (quantity p) - sint amount \<le> INT_MAX \<longrightarrow>
            map_of (products (sellProduct inventory i amount out0)) =
              (map_of inventory)(i \<mapsto> p\<lparr>quantity := quantity p - amount\<rparr>) \<and>
            sint (quantity p - amount) = sint (quantity p) - sint amount \<and>
            sint (quantity p) < sint (quantity p - amount))"
proof -
  have "sint (quantity p - amount) = sint (quantity p) - sint amount \<and>
        sint (quantity p) < sint (quantity p - amount)"
    if fits: "sint (quantity p) - sint amount \<le> INT_MAX"
  proof -
    from assms(2,3) have "INT_MIN \<le> sint (quantity p) - sint amount"
      by (simp add: INT_MIN_def)
    then have "sint (quantity p - amount) = sint (quantity p) - sint amount"
      using fits by (rule sint_diff_exact)
    with assms(3) show ?thesis by simp
  qed
  with assms show ?thesis
    by (simp add: sellProduct_def Let_def map_of_assign)
qed

theorem sellProduct_negative_amount_witness:
  "map_of [(2, rice)] (2 :: cint) = Some rice \<and>
   0 \<le> sint (quantity rice) \<and>
   sint (- 20 :: cint) < 0 \<and>
   ret (sellProduct [(2, rice)] 2 (- 20) Product_default) = True \<and>
   outTaken (sellProduct [(2, rice)] 2 (- 20) Product_default) = rice\<lparr>quantity := - 20\<rparr> \<and>
   sint (quantity rice) - sint (- 20 :: cint) \<le> INT_MAX \<and>
   map_of (products (sellProduct [(2, rice)] 2 (- 20) Product_default)) 2 =
     Some (rice\<lparr>quantity := 120\<rparr>) \<and>
   sint (quantity rice - (- 20)) = 120 \<and>
   sint (quantity rice) < sint (quantity rice - (- 20))"
  using sellProduct_negative_amount [of "[(2, rice)]" 2 rice "- 20" Product_default]
  by (simp add: rice_def INT_MAX_def)

text \<open>
  C10 as stated fails where the subtraction of line 290 overflows: with 100 in stock and
  the amount \<open>INT_MIN\<close> the sale succeeds, and the stored quantity is then
  \<open>-2147483548\<close>, which is not greater than 100.
\<close>

theorem sellProduct_negative_amount_counterexample:
  "map_of [(2, rice)] (2 :: cint) = Some rice \<and>
   0 \<le> sint (quantity rice) \<and>
   sint (- 2147483648 :: cint) < 0 \<and>
   ret (sellProduct [(2, rice)] 2 (- 2147483648) Product_default) = True \<and>
   map_of (products (sellProduct [(2, rice)] 2 (- 2147483648) Product_default)) 2 =
     Some (rice\<lparr>quantity := quantity rice - (- 2147483648)\<rparr>) \<and>
   sint (quantity rice - (- 2147483648)) = - 2147483548 \<and>
   \<not> sint (quantity rice) < sint (quantity rice - (- 2147483648))"
  by (simp add: sellProduct_def Let_def rice_def)

section \<open>The stock warnings of a sale\<close>

lemma FULL_in_warnings: "FULL n \<in> set (warnings q) \<longleftrightarrow> quantity q = 100 \<and> name q = n"
  by (auto simp: warnings_def)

text \<open>
  C3, as amended. A sale prints the FULL warning exactly when it succeeds and the
  quantity after the decrement is 100. For an amount above 0 and a stored quantity of
  at most 100 this never happens.
\<close>

theorem sell_FULL_iff:
  "(FULL n \<in> set (cout (sellProduct inventory i amount out0)) \<longleftrightarrow>
      (\<exists>p. map_of inventory i = Some p \<and> sint amount \<le> sint (quantity p) \<and>
           quantity p - amount = 100 \<and> name p = n)) \<and>
   (0 < sint amount \<and> (\<forall>p. map_of inventory i = Some p \<longrightarrow> sint (quantity p) \<le> 100) \<longrightarrow>
      FULL n \<notin> set (cout (sellProduct inventory i amount out0)))"
proof -
  have iff: "FULL n \<in> set (cout (sellProduct inventory i amount out0)) \<longleftrightarrow>
      (\<exists>p. map_of inventory i = Some p \<and> sint amount \<le> sint (quantity p) \<and>
           quantity p - amount = 100 \<and> name p = n)"
    by (cases "map_of inventory i")
      (auto simp: sellProduct_def Let_def FULL_in_warnings)
  have "FULL n \<notin> set (cout (sellProduct inventory i amount out0))"
    if pos: "0 < sint amount"
      and le: "\<forall>p. map_of inventory i = Some p \<longrightarrow> sint (quantity p) \<le> 100"
  proof
    assume "FULL n \<in> set (cout (sellProduct inventory i amount out0))"
    with iff obtain p where p: "map_of inventory i = Some p"
      and enough: "sint amount \<le> sint (quantity p)"
      and full: "quantity p - amount = 100"
      by blast
    from le p have q: "sint (quantity p) \<le> 100" by simp
    from pos enough q have "sint (quantity p - amount) = sint (quantity p) - sint amount"
      by (intro sint_diff_exact) (simp_all add: INT_MIN_def INT_MAX_def)
    with full have "sint (quantity p) - sint amount = 100" by simp
    with pos q show False by simp
  qed
  with iff show ?thesis by blast
qed

theorem sell_FULL_iff_witness:
  "0 < sint (40 :: cint) \<and>
   map_of [(2, rice)] (2 :: cint) = Some rice \<and> sint (quantity rice) \<le> 100 \<and>
   cout (sellProduct [(2, rice)] 2 40 Product_default) = [SaleSuccessful] \<and>
   FULL ''Rice'' \<notin> set (cout (sellProduct [(2, rice)] 2 40 Product_default)) \<and>
   sint (- 50 :: cint) \<le> sint (quantity milk) \<and> quantity milk - (- 50) = 100 \<and>
   FULL ''Milk'' \<in> set (cout (sellProduct [(1, milk)] 1 (- 50) Product_default))"
  using sell_FULL_iff [of "''Rice''" "[(2, rice)]" 2 40 Product_default]
    sell_FULL_iff [of "''Milk''" "[(1, milk)]" 1 "- 50" Product_default]
  by (simp add: rice_def milk_def sellProduct_def Let_def warnings_def)

text \<open>
  C3 as stated fails: the FULL branch of line 299 is reached by a sale of \<open>-50\<close> from a
  stock of 50, and by a sale of 0 from a stock of 100.
\<close>

theorem sell_FULL_counterexample:
  "cout (sellProduct [(1, milk)] 1 (- 50) Product_default) = [FULL ''Milk'', SaleSuccessful] \<and>
   cout (sellProduct [(2, rice)] 2 0 Product_default) = [FULL ''Rice'', SaleSuccessful]"
  by (simp add: sellProduct_def Let_def warnings_def milk_def rice_def)

section \<open>Failed calls\<close>

text \<open>
  C6. A call of \<open>insertProduct\<close>, \<open>deleteProduct\<close>, \<open>restockProduct\<close> or \<open>sellProduct\<close>
  that returns \<open>false\<close> leaves the inventory as it was (and \<open>sellProduct\<close> leaves its
  out-parameter as it was).
\<close>

theorem failed_calls_keep_inventory:
  "(ret (insertProduct inventory p) = False \<longrightarrow>
      products (insertProduct inventory p) = inventory) \<and>
   (ret (deleteProduct inventory i) = False \<longrightarrow>
      products (deleteProduct inventory i) = inventory) \<and>
   (ret (restockProduct inventory i amount) = False \<longrightarrow>
      products (restockProduct inventory i amount) = inventory) \<and>
   (ret (sellProduct inventory i amount out0) = False \<longrightarrow>
      products (sellProduct inventory i amount out0) = inventory \<and>
      outTaken (sellProduct inventory i amount out0) = out0)"
  by (auto simp: insertProduct_def deleteProduct_def restockProduct_def sellProduct_def
      erase_def Let_def count_m_zero filter_absent split: option.splits if_splits)

theorem failed_calls_keep_inventory_witness:
  "ret (insertProduct [(1, milk)] (rice\<lparr>quantity := 101\<rparr>)) = False \<and>
   products (insertProduct [(1, milk)] (rice\<lparr>quantity := 101\<rparr>)) = [(1, milk)] \<and>
   map_of (products (insertProduct [(1, milk)] (rice\<lparr>quantity := 101\<rparr>))) 2 = None \<and>
   ret (deleteProduct [(1, milk)] 2) = False \<and>
   products (deleteProduct [(1, milk)] 2) = [(1, milk)] \<and>
   ret (restockProduct [(1, milk)] 1 51) = False \<and>
   products (restockProduct [(1, milk)] 1 51) = [(1, milk)] \<and>
   ret (sellProduct [(1, milk)] 1 51 Product_default) = False \<and>
   products (sellProduct [(1, milk)] 1 51 Product_default) = [(1, milk)]"
  using failed_calls_keep_inventory
      [of "[(1, milk)]" "rice\<lparr>quantity := 101\<rparr>" 2 51 Product_default]
    failed_calls_keep_inventory
      [of "[(1, milk)]" "rice\<lparr>quantity := 101\<rparr>" 1 51 Product_default]
  by (simp add: insertProduct_def deleteProduct_def restockProduct_def sellProduct_def
      erase_def count_m_def milk_def rice_def)

section \<open>Insert, then delete\<close>

text \<open>
  C7, as amended. If \<open>p.id\<close> is not in the inventory, then \<open>insertProduct(p)\<close> followed
  by \<open>deleteProduct(p.id)\<close> gives back the inventory as it was before the insert, with
  no entry for \<open>p.id\<close>.
\<close>

theorem insert_then_delete_restores:
  assumes "\<not> productExists inventory (id' p)"
  shows "products (deleteProduct (products (insertProduct inventory p)) (id' p)) = inventory \<and>
         \<not> productExists
             (products (deleteProduct (products (insertProduct inventory p)) (id' p))) (id' p)"
proof -
  from assms have absent: "map_of inventory (id' p) = None"
    by (simp add: productExists_iff)
  then have "products (deleteProduct (products (insertProduct inventory p)) (id' p)) =
      inventory"
    by (simp add: insertProduct_def deleteProduct_def erase_def count_m_zero
        filter_absent filter_assign_absent map_of_assign)
  with assms show ?thesis by simp
qed

theorem insert_then_delete_restores_witness:
  "\<not> productExists [(1, milk)] (id' rice) \<and>
   products (insertProduct [(1, milk)] rice) = [(1, milk), (2, rice)] \<and>
   products (deleteProduct (products (insertProduct [(1, milk)] rice)) (id' rice)) =
     [(1, milk)]"
  using insert_then_delete_restores [of "[(1, milk)]" rice]
  by (simp add: insertProduct_def productExists_def count_m_def milk_def rice_def)

text \<open>
  C7 as stated fails when \<open>p.id\<close> is already in the inventory: the insert is refused,
  and the delete then removes the product that was there before.
\<close>

theorem insert_then_delete_counterexample:
  "productExists [(1, milk)] (id' (rice\<lparr>id' := 1\<rparr>)) \<and>
   ret (insertProduct [(1, milk)] (rice\<lparr>id' := 1\<rparr>)) = False \<and>
   products (deleteProduct (products (insertProduct [(1, milk)] (rice\<lparr>id' := 1\<rparr>)))
     (id' (rice\<lparr>id' := 1\<rparr>))) = [] \<and>
   products (deleteProduct (products (insertProduct [(1, milk)] (rice\<lparr>id' := 1\<rparr>)))
     (id' (rice\<lparr>id' := 1\<rparr>))) \<noteq> [(1, milk)]"
  by (simp add: insertProduct_def deleteProduct_def erase_def count_m_def productExists_def)

section \<open>The stock range\<close>

lemma quantities_in_range_assign:
  "quantities_in_range m \<Longrightarrow> quantity_ok v \<Longrightarrow> quantities_in_range (assign m k v)"
  using set_assign [of m k v] by (auto simp: quantities_in_range_def list_all_iff)

lemma quantities_in_range_filter:
  "quantities_in_range m \<Longrightarrow> quantities_in_range (filter P m)"
  by (auto simp: quantities_in_range_def list_all_iff)

lemma quantities_in_range_lookup:
  "quantities_in_range m \<Longrightarrow> map_of m k = Some p \<Longrightarrow> quantity_ok p"
  by (fastforce simp: quantities_in_range_def list_all_iff dest: map_of_SomeD)

lemma restock_keeps_range:
  assumes "quantity_ok p" and "0 \<le> sint a" and "sint a \<le> INT_MAX - 100"
    and "\<not> 100 < sint (quantity p + a)"
  shows "quantity_ok (p\<lparr>quantity := quantity p + a\<rparr>)"
proof -
  from assms(1-3) have "sint (quantity p + a) = sint (quantity p) + sint a"
    by (intro sint_sum_exact) (simp_all add: quantity_ok_def INT_MIN_def INT_MAX_def)
  with assms show ?thesis by (simp add: quantity_ok_def)
qed

lemma sell_keeps_range:
  assumes "quantity_ok p" and "0 \<le> sint a" and "\<not> sint (quantity p) < sint a"
  shows "quantity_ok (p\<lparr>quantity := quantity p - a\<rparr>)"
proof -
  from assms have "sint (quantity p - a) = sint (quantity p) - sint a"
    by (intro sint_diff_exact) (simp_all add: quantity_ok_def INT_MIN_def INT_MAX_def)
  with assms show ?thesis by (simp add: quantity_ok_def)
qed

lemma apply_op_keeps_range:
  assumes "quantities_in_range m" and "nonneg_op x" and "restock_fits x"
  shows "quantities_in_range (apply_op m x)"
proof (cases x)
  case (Insert p)
  with assms show ?thesis
    by (simp add: insertProduct_def quantities_in_range_assign quantity_ok_def)
next
  case (Delete i)
  with assms show ?thesis
    by (simp add: deleteProduct_def erase_def quantities_in_range_filter)
next
  case (Restock i a)
  with assms show ?thesis
    by (auto simp: restockProduct_def Let_def quantities_in_range_assign
        restock_keeps_range quantities_in_range_lookup split: option.splits)
next
  case (Sell i a)
  with assms show ?thesis
    by (auto simp: sellProduct_def Let_def quantities_in_range_assign
        sell_keeps_range quantities_in_range_lookup split: option.splits)
qed

lemma foldl_apply_op_keeps_range:
  "quantities_in_range m \<Longrightarrow> list_all nonneg_op ops \<Longrightarrow> list_all restock_fits ops \<Longrightarrow>
   quantities_in_range (foldl apply_op m ops)"
  by (induction ops arbitrary: m) (simp_all add: apply_op_keeps_range)

text \<open>
  Where no restock amount is above \<open>INT_MAX - 100\<close>, calls without negative numbers
  keep every stored quantity in \<open>[0, 100]\<close>.
\<close>

lemma quantities_in_range_without_overflow:
  "list_all nonneg_op ops \<Longrightarrow> list_all restock_fits ops \<Longrightarrow>
   quantities_in_range (run_ops ops)"
  unfolding run_ops_def
  by (rule foldl_apply_op_keeps_range) (simp_all add: quantities_in_range_def)

text \<open>
  C2 fails on the code. Insert the milk (50 in stock), then restock it by \<open>INT_MAX\<close>:
  no number is negative, the sum of line 271 overflows to \<open>-2147483599\<close>, which is not
  above 100, so \<open>restockProduct\<close> returns \<open>true\<close> and stores that quantity, outside
  \<open>[0, 100]\<close>.
\<close>

theorem restock_overflow_leaves_range:
  "list_all nonneg_op [Insert milk, Restock 1 2147483647] \<and>
   ret (restockProduct (run_ops [Insert milk]) 1 2147483647) = True \<and>
   run_ops [Insert milk, Restock 1 2147483647] =
     [(1, milk\<lparr>quantity := quantity milk + 2147483647\<rparr>)] \<and>
   sint (quantity milk + 2147483647) = - 2147483599 \<and>
   \<not> quantities_in_range (run_ops [Insert milk, Restock 1 2147483647])"
  by (simp add: run_ops_def insertProduct_def restockProduct_def Let_def count_m_def
      quantities_in_range_def quantity_ok_def milk_def)

section \<open>The running total of the receipt\<close>






section \<open>The export of the inventory\<close>

lemma lines_acc_line:
  "newline \<notin> set l \<Longrightarrow> lines_acc acc (l @ newline # rest) = (acc @ l) # lines_acc [] rest"
  by (induction l arbitrary: acc) auto

lemma lines_of_line:
  "newline \<notin> set l \<Longrightarrow> lines_of (l @ newline # rest) = l # lines_of rest"
  by (simp add: lines_of_def lines_acc_line)

lemma lines_of_blank: "lines_of (newline # rest) = [] # lines_of rest"
  by (simp add: lines_of_def)

lemma lines_of_concat:
  "\<forall>l \<in> set ls. newline \<notin> set l \<Longrightarrow> lines_of (concat (map (\<lambda>l. l @ [newline]) ls)) = ls"
  by (induction ls) (simp_all add: lines_of_line, simp add: lines_of_def)

lemma digit_not_newline: "n < 10 \<Longrightarrow> ''0123456789'' ! n \<noteq> newline"
proof -
  assume "n < 10"
  then have "''0123456789'' ! n \<in> set ''0123456789''" by (intro nth_mem) simp
  then show ?thesis by (auto simp: newline_def)
qed

lemma show_nat_no_newline: "newline \<notin> set (show_nat n)"
proof (induction n rule: show_nat.induct)
  case (1 n)
  show ?case
  proof (cases "n < 10")
    case True
    with digit_not_newline [of n] show ?thesis
      by (subst show_nat.simps) auto
  next
    case False
    with 1 digit_not_newline [of "n mod 10"] show ?thesis
      by (subst show_nat.simps) auto
  qed
qed

lemma show_int_no_newline: "newline \<notin> set (show_int i)"
  by (simp add: show_int_def show_nat_no_newline) (simp add: newline_def)

lemma toFileString_no_newline:
  "newline \<notin> set (name p) \<Longrightarrow> newline \<notin> set (fmt (price p)) \<Longrightarrow>
   newline \<notin> set (toFileString fmt p)"
  by (simp add: toFileString_def show_int_no_newline) (simp add: newline_def)

lemma getFileContent_lines:
  assumes "newline \<notin> set now" and "list_all (\<lambda>e. line_safe fmt (snd e)) m"
  shows "lines_of (getFileContent now fmt m) =
         [''=== INVENTORY EXPORT ==='', ''Timestamp: '' @ now, []] @
         map (\<lambda>e. toFileString fmt (snd e)) m"
proof -
  have body: "concat (map (\<lambda>(i, p). toFileString fmt p @ [newline]) m) =
      concat (map (\<lambda>l. l @ [newline]) (map (\<lambda>e. toFileString fmt (snd e)) m))"
    by (simp add: case_prod_unfold comp_def)
  have safe: "\<forall>l \<in> set (map (\<lambda>e. toFileString fmt (snd e)) m). newline \<notin> set l"
    using assms(2) by (auto simp: list_all_iff line_safe_def toFileString_no_newline)
  have hdr: "newline \<notin> set ''=== INVENTORY EXPORT ===''"
    by (simp add: newline_def)
  have ts: "newline \<notin> set (''Timestamp: '' @ now)"
    using assms(1) by (simp add: newline_def)
  have "getFileContent now fmt m =
      ''=== INVENTORY EXPORT ==='' @ newline #
      ((''Timestamp: '' @ now) @ newline #
       (newline # concat (map (\<lambda>(i, p). toFileString fmt p @ [newline]) m)))"
    by (simp add: getFileContent_def)
  then have "lines_of (getFileContent now fmt m) =
      ''=== INVENTORY EXPORT ==='' # (''Timestamp: '' @ now) # [] #
      lines_of (concat (map (\<lambda>(i, p). toFileString fmt p @ [newline]) m))"
    by (simp only: lines_of_line [OF hdr] lines_of_line [OF ts] lines_of_blank)
  also have "lines_of (concat (map (\<lambda>(i, p). toFileString fmt p @ [newline]) m)) =
      map (\<lambda>e. toFileString fmt (snd e)) m"
    unfolding body by (rule lines_of_concat [OF safe])
  finally show ?thesis by simp
qed

lemma ids_ascending:
  "keys_ascending m \<Longrightarrow> ids_match m \<Longrightarrow>
   sorted_wrt (<) (map (\<lambda>e. sint (id' (snd e))) m)"
proof -
  assume a: "keys_ascending m" and b: "ids_match m"
  from b have eq: "map (\<lambda>e. sint (id' (snd e))) m = map (\<lambda>e. sint (fst e)) m"
    by (induction m) (simp_all add: ids_match_def)
  from a show ?thesis unfolding keys_ascending_def eq .
qed

lemma toFileString_milk: "toFileString fmt2 milk = ''1 Milk 50 2.5''"
  by (simp add: toFileString_def fmt2_def milk_def show_int_def show_nat.simps)

lemma toFileString_rice: "toFileString fmt2 rice = ''2 Rice 100 3''"
  by (simp add: toFileString_def fmt2_def rice_def show_int_def show_nat.simps)

lemma timestamp_no_newline: "newline \<notin> set ''20261030_120000''"
  by (simp add: newline_def)

lemma milk_rice_line_safe: "list_all (\<lambda>e. line_safe fmt2 (snd e)) [(1, milk), (2, rice)]"
  by (simp add: line_safe_def fmt2_def milk_def rice_def newline_def)

text \<open>
  C9, as amended. For every inventory that calls of the four operations build from the
  empty one, and with no line feed in the timestamp, the names and the printed prices:
  the lines of the export are the header line, the timestamp line, one empty line,
  and then one line per stored product, each the record \<open>id name quantity price\<close> of
  \<open>toFileString\<close>, with the ids strictly ascending. An inventory of two products gives
  the empty line and two such lines after the header and the timestamp.
\<close>

theorem inventory_export_lines:
  assumes "newline \<notin> set now"
    and "list_all (\<lambda>e. line_safe fmt (snd e)) (run_ops ops)"
  shows "lines_of (getFileContent now fmt (run_ops ops)) =
           [''=== INVENTORY EXPORT ==='', ''Timestamp: '' @ now, []] @
           map (\<lambda>e. toFileString fmt (snd e)) (run_ops ops) \<and>
         sorted_wrt (<) (map (\<lambda>e. sint (id' (snd e))) (run_ops ops))"
  using getFileContent_lines [OF assms] run_ops_wf [of ops] by (simp add: ids_ascending)

theorem inventory_export_lines_witness:
  "newline \<notin> set ''20261030_120000'' \<and>
   list_all (\<lambda>e. line_safe fmt2 (snd e)) (run_ops [Insert rice, Insert milk]) \<and>
   run_ops [Insert rice, Insert milk] = [(1, milk), (2, rice)] \<and>
   lines_of (getFileContent ''20261030_120000'' fmt2 (run_ops [Insert rice, Insert milk])) =
     [''=== INVENTORY EXPORT ==='', ''Timestamp: 20261030_120000'', [],
      ''1 Milk 50 2.5'', ''2 Rice 100 3''] \<and>
   sorted_wrt (<) (map (\<lambda>e. sint (id' (snd e))) (run_ops [Insert rice, Insert milk]))"
proof -
  have run: "run_ops [Insert rice, Insert milk] = [(1, milk), (2, rice)]"
    by (simp add: run_ops_def insertProduct_def count_m_def milk_def rice_def)
  have safe: "list_all (\<lambda>e. line_safe fmt2 (snd e)) (run_ops [Insert rice, Insert milk])"
    unfolding run by (rule milk_rice_line_safe)
  from inventory_export_lines [OF timestamp_no_newline safe] show ?thesis
    using timestamp_no_newline safe
    by (simp add: run toFileString_milk toFileString_rice)
qed

text \<open>
  C9 as stated fails: line 320 ends the timestamp line with two line feeds, so the
  export of two products has three lines after the header and the timestamp, the first
  of them empty.
\<close>

theorem inventory_export_lines_counterexample:
  "drop 2 (lines_of (getFileContent ''20261030_120000'' fmt2 [(1, milk), (2, rice)])) =
     [[], ''1 Milk 50 2.5'', ''2 Rice 100 3''] \<and>
   drop 2 (lines_of (getFileContent ''20261030_120000'' fmt2 [(1, milk), (2, rice)])) \<noteq>
     [''1 Milk 50 2.5'', ''2 Rice 100 3'']"
  by (simp add: getFileContent_lines [OF timestamp_no_newline milk_rice_line_safe]
      toFileString_milk toFileString_rice)

end
